theory Spec2Isabelle
  imports Complex_Main
begin

section \<open>Network builders of baselines/common/models.py\<close>

text \<open>
  The module builds TensorFlow graphs. A graph is embedded as the term of the calls that
  build it: every call of the source to TensorFlow or to \<^verbatim>\<open>baselines.a2c.utils\<close>
  is one constructor holding the call's arguments, so a network function of the source is
  a function that returns such a term. Python exceptions raised by the module's own
  statements are values of \<open>error\<close>; \<open>None\<close> is \<open>None\<close>. A constructor stands
  for the call as written. Whether TensorFlow accepts the shapes of a feed-forward
  graph is read off by \<open>shape_of\<close> below; the recurrent builders call
  \<open>batch_to_seq\<close>, which raises when its reshape does not fit. The creation of
  variables (a scope used twice, the initial values) is no part of the model.

  The input tensor \<open>X\<close> is symbolic: it is known by its static shape, a list of
  naturals, and enters a graph as \<open>Input X\<close>. Keyword dictionaries
  (\<^verbatim>\<open>**conv_kwargs\<close>) are association lists handed on unchanged; they hold
  options of the callee only, so the clash of a keyword with one the call already fixes
  is outside the model. The line printed by \<^verbatim>\<open>mlp\<close>'s network function goes
  to standard output and is no part of the value returned; it is left out.
\<close>

subsection \<open>Values\<close>

text \<open>
  \<open>ShapeError\<close> is the \<^verbatim>\<open>ValueError\<close> TensorFlow raises while a graph is built
  from shapes that do not fit; its message is not modelled.
\<close>

datatype error =
    ValueError string
  | IndexError
  | ZeroDivisionError
  | ShapeError

type_synonym shape = "nat list"

datatype dtype = tf_float32

datatype activation = tf_nn_relu | tf_tanh

text \<open>\<^verbatim>\<open>np.sqrt(2)\<close>, kept as the call: the float it rounds to plays no role.\<close>

datatype scale = np_sqrt nat

datatype pyval = PyStr string | PyBool bool | PyInt int | PyNone

type_synonym kwargs = "(string \<times> pyval) list"

text \<open>
  Tensors of the feed-forward graphs. \<open>Conv\<close> is
  \<^verbatim>\<open>conv(x, scope, nf=, rf=, stride=, init_scale=, **conv_kwargs)\<close>, \<open>Fc\<close> is
  \<^verbatim>\<open>fc(x, scope, nh=, init_scale=)\<close>, \<open>ConvToFc\<close> is \<^verbatim>\<open>conv_to_fc\<close>,
  \<open>Flatten\<close> is \<^verbatim>\<open>tf.layers.flatten\<close>, \<open>TrueDiv x c\<close> is \<^verbatim>\<open>x / c\<close> for a
  float constant, \<open>Activ a x\<close> is the activation \<open>a\<close> applied to \<open>x\<close>, and
  \<open>Convolution2d\<close> is \<^verbatim>\<open>layers.convolution2d(x, num_outputs=, kernel_size=, stride=,
  activation_fn=, **conv_kwargs)\<close> with the variable scope it is called in.
\<close>

datatype tensor =
    Input shape
  | Placeholder dtype shape
  | Cast tensor dtype
  | TrueDiv tensor real
  | Activ activation tensor
  | Conv tensor string nat nat nat scale kwargs
  | Fc tensor string nat scale
  | ConvToFc tensor
  | Flatten tensor
  | Convolution2d tensor string nat nat nat activation kwargs

text \<open>
  The recurrent part. \<open>BatchToSeq h nenv nsteps\<close> is the list of tensors that
  \<^verbatim>\<open>batch_to_seq(h, nenv, nsteps)\<close> returns when it returns; a \<open>cell\<close> is one call
  \<^verbatim>\<open>utils.lstm(xs, ms, S, scope=, nh=)\<close> or \<^verbatim>\<open>utils.lnlstm(...)\<close>, which
  returns the pair \<^verbatim>\<open>(h5, snew)\<close>: \<open>seq_to_batch_h5 c\<close> is
  \<^verbatim>\<open>seq_to_batch(h5)\<close> and \<open>snew c\<close> is the updated state.
\<close>

datatype seq = BatchToSeq tensor nat nat

datatype cell_kind = utils_lstm | utils_lnlstm

datatype cell =
  Cell (kind: cell_kind) (cell_xs: seq) (cell_ms: seq) (cell_s: tensor)
       (cell_scope: string) (cell_nh: nat)

datatype recurrent = seq_to_batch_h5 cell | snew cell

text \<open>A numpy array: its shape and its entries in row-major order.\<close>

datatype ndarray = NdArray (np_shape: shape) (np_data: "real list")

definition np_zeros :: "shape \<Rightarrow> ndarray" where
  "np_zeros s = NdArray s (replicate (prod_list s) 0)"

datatype dict_value = TensorVal tensor | StateVal recurrent | ArrayVal ndarray

type_synonym state_dict = "string \<rightharpoonup> dict_value"

subsection \<open>Python primitives\<close>

text \<open>\<^verbatim>\<open>a // b\<close> on non-negative integers.\<close>

definition py_floordiv :: "nat \<Rightarrow> nat \<Rightarrow> error + nat" where
  "py_floordiv a b = (if b = 0 then Inl ZeroDivisionError else Inr (a div b))"

text \<open>\<^verbatim>\<open>range(n)\<close>: empty for \<open>n \<le> 0\<close>.\<close>

definition py_range :: "int \<Rightarrow> nat list" where
  "py_range n = [0..<nat n]"

text \<open>\<^verbatim>\<open>xs[i]\<close> for an index \<open>i \<ge> 0\<close>.\<close>

definition py_index :: "'a list \<Rightarrow> nat \<Rightarrow> error + 'a" where
  "py_index xs i = (if i < length xs then Inr (xs ! i) else Inl IndexError)"

text \<open>\<^verbatim>\<open>'{}'.format(i)\<close> for an integer \<open>i \<ge> 0\<close>: its decimal digits.\<close>

definition digit_char :: "nat \<Rightarrow> char" where
  "digit_char d = ''0123456789'' ! d"

function str_nat :: "nat \<Rightarrow> string" where
  "str_nat n = (if n < 10 then [digit_char n] else str_nat (n div 10) @ [digit_char (n mod 10)])"
  by pat_completeness auto
termination
  by (relation "measure id") auto

declare str_nat.simps [simp del]

text \<open>\<^verbatim>\<open>min(xs)\<close> and \<^verbatim>\<open>max(xs)\<close> of a list of floats; both raise on \<open>[]\<close>.\<close>

fun py_min :: "real list \<Rightarrow> error + real" where
  "py_min [] = Inl (ValueError ''min() arg is an empty sequence'')"
| "py_min (x # xs) = Inr (fold min xs x)"

fun py_max :: "real list \<Rightarrow> error + real" where
  "py_max [] = Inl (ValueError ''max() arg is an empty sequence'')"
| "py_max (x # xs) = Inr (fold max xs x)"

subsection \<open>Static shapes\<close>

text \<open>
  Modelled from the spec: \<^verbatim>\<open>conv\<close>, \<^verbatim>\<open>fc\<close> and \<^verbatim>\<open>conv_to_fc\<close> of
  \<^verbatim>\<open>baselines.a2c.utils\<close> are imported by the module and are not among the sources,
  and \<^verbatim>\<open>tf.layers.flatten\<close> and \<^verbatim>\<open>layers.convolution2d\<close> are TensorFlow's.
  Following the spec, a fully-connected layer of width \<open>nh\<close> maps a batch of flat
  feature vectors \<open>[N, nin]\<close> to \<open>[N, nh]\<close>, flattening maps \<open>[N, d1, ..., dk]\<close> to
  \<open>[N, d1 * ... * dk]\<close>, and casts, the division by a constant and activations keep the
  shape. What a convolution does to the shape of one example is not fixed by the spec
  and is a parameter: \<open>fw prim kw s nf rf stride\<close> is the shape a convolution of the
  primitive \<open>prim\<close> with options \<open>kw\<close>, \<open>nf\<close> filters, kernel \<open>rf\<close> and the given
  stride makes of an example of shape \<open>s\<close>, or \<open>None\<close> when the framework rejects it
  (the spec leaves shape mismatches to the framework). A convolution works example by
  example: the batch dimension stays.
\<close>

datatype conv_prim = a2c_conv | contrib_convolution2d

type_synonym conv_shape = "conv_prim \<Rightarrow> kwargs \<Rightarrow> shape \<Rightarrow> nat \<Rightarrow> nat \<Rightarrow> nat \<Rightarrow> shape option"

fun shape_of :: "conv_shape \<Rightarrow> tensor \<Rightarrow> error + shape" where
  "shape_of fw (Input s) = Inr s"
| "shape_of fw (Placeholder d s) = Inr s"
| "shape_of fw (Cast t d) = shape_of fw t"
| "shape_of fw (TrueDiv t c) = shape_of fw t"
| "shape_of fw (Activ a t) = shape_of fw t"
| "shape_of fw (Conv t scope nf rf stride init_scale kw) =
     (case shape_of fw t of
        Inl e \<Rightarrow> Inl e
      | Inr [] \<Rightarrow> Inl ShapeError
      | Inr (n # s) \<Rightarrow>
          (case fw a2c_conv kw s nf rf stride of
             None \<Rightarrow> Inl ShapeError
           | Some s' \<Rightarrow> Inr (n # s')))"
| "shape_of fw (Fc t scope nh init_scale) =
     (case shape_of fw t of
        Inl e \<Rightarrow> Inl e
      | Inr [n, nin] \<Rightarrow> Inr [n, nh]
      | Inr _ \<Rightarrow> Inl ShapeError)"
| "shape_of fw (ConvToFc t) =
     (case shape_of fw t of
        Inl e \<Rightarrow> Inl e
      | Inr [] \<Rightarrow> Inl ShapeError
      | Inr (n # s) \<Rightarrow> Inr [n, prod_list s])"
| "shape_of fw (Flatten t) =
     (case shape_of fw t of
        Inl e \<Rightarrow> Inl e
      | Inr [] \<Rightarrow> Inl ShapeError
      | Inr (n # s) \<Rightarrow> Inr [n, prod_list s])"
| "shape_of fw (Convolution2d t scope nf k stride a kw) =
     (case shape_of fw t of
        Inl e \<Rightarrow> Inl e
      | Inr [] \<Rightarrow> Inl ShapeError
      | Inr (n # s) \<Rightarrow>
          (case fw contrib_convolution2d kw s nf k stride of
             None \<Rightarrow> Inl ShapeError
           | Some s' \<Rightarrow> Inr (n # s')))"

text \<open>
  One instance of the parameter, used to run the shapes on concrete inputs: a
  convolution without padding over an example \<open>[h, w, c]\<close>, which needs the kernel to
  fit and gives \<open>(h - rf) div stride + 1\<close> positions along each side. It is what
  \<^verbatim>\<open>conv\<close> does when no padding option is passed.
\<close>

definition unpadded_conv :: conv_shape where
  "unpadded_conv prim kw s nf rf stride =
     (case s of
        [h, w, c] \<Rightarrow>
          (if 0 < stride \<and> rf \<le> h \<and> rf \<le> w
           then Some [(h - rf) div stride + 1, (w - rf) div stride + 1, nf]
           else None)
      | _ \<Rightarrow> None)"

text \<open>
  Modelled from the spec: \<^verbatim>\<open>batch_to_seq\<close> of \<^verbatim>\<open>baselines.a2c.utils\<close> is
  imported by the module and is not among the sources. Following the spec it splits a
  batch into one sequence of \<open>nsteps\<close> steps for each of \<open>nbatch\<close> environments (the
  module passes \<open>nenv\<close> for the helper's parameter \<open>nbatch\<close>): it reshapes \<open>h\<close> to
  \<open>[nbatch, nsteps, -1]\<close> and cuts the result along the steps. TensorFlow's reshape
  fits only when \<open>nbatch * nsteps\<close> is positive and divides the number of elements of
  \<open>h\<close>; otherwise building the graph raises.
\<close>

definition batch_to_seq :: "conv_shape \<Rightarrow> tensor \<Rightarrow> nat \<Rightarrow> nat \<Rightarrow> error + seq" where
  "batch_to_seq fw h nbatch nsteps =
     (case shape_of fw h of
        Inl e \<Rightarrow> Inl e
      | Inr s \<Rightarrow>
          (if 0 < nbatch * nsteps \<and> prod_list s mod (nbatch * nsteps) = 0
           then Inr (BatchToSeq h nbatch nsteps)
           else Inl ShapeError))"

text \<open>
  What a builder makes under a framework: the builders that need static shapes while
  they build take the framework's convolution rule as their last argument.
\<close>

type_synonym 'a built = "conv_shape \<Rightarrow> error + 'a"

subsection \<open>nature_cnn, cnn, cnn_small, conv_only\<close>

definition nature_cnn :: "tensor \<Rightarrow> kwargs \<Rightarrow> tensor" where
  "nature_cnn unscaled_images conv_kwargs =
     (let scaled_images = TrueDiv (Cast unscaled_images tf_float32) 255;
          activ = Activ tf_nn_relu;
          h = activ (Conv scaled_images ''c1'' 32 8 4 (np_sqrt 2) conv_kwargs);
          h2 = activ (Conv h ''c2'' 64 4 2 (np_sqrt 2) conv_kwargs);
          h3 = activ (Conv h2 ''c3'' 64 3 1 (np_sqrt 2) conv_kwargs);
          h3 = ConvToFc h3
      in activ (Fc h3 ''fc1'' 512 (np_sqrt 2)))"

definition cnn :: "kwargs \<Rightarrow> shape \<Rightarrow> tensor \<times> state_dict option" where
  "cnn conv_kwargs X = (nature_cnn (Input X) conv_kwargs, None)"

definition cnn_small :: "kwargs \<Rightarrow> shape \<Rightarrow> tensor \<times> state_dict option" where
  "cnn_small conv_kwargs X =
     (let h = TrueDiv (Cast (Input X) tf_float32) 255;
          activ = Activ tf_nn_relu;
          h = activ (Conv h ''c1'' 8 8 4 (np_sqrt 2) conv_kwargs);
          h = activ (Conv h ''c2'' 16 4 2 (np_sqrt 2) conv_kwargs);
          h = ConvToFc h;
          h = activ (Fc h ''fc1'' 128 (np_sqrt 2))
      in (h, None))"

text \<open>The default of \<^verbatim>\<open>conv_only\<close>'s parameter \<^verbatim>\<open>convs\<close>.\<close>

definition conv_only_default_convs :: "(nat \<times> nat \<times> nat) list" where
  "conv_only_default_convs = [(32, 8, 4), (64, 4, 2), (64, 3, 1)]"

text \<open>The loop of \<^verbatim>\<open>conv_only\<close> over the triples, inside the scope \<^verbatim>\<open>convnet\<close>.\<close>

fun conv_only_loop :: "(nat \<times> nat \<times> nat) list \<Rightarrow> kwargs \<Rightarrow> tensor \<Rightarrow> tensor" where
  "conv_only_loop [] conv_kwargs out = out"
| "conv_only_loop ((num_outputs, kernel_size, stride) # convs) conv_kwargs out =
     conv_only_loop convs conv_kwargs
       (Convolution2d out ''convnet'' num_outputs kernel_size stride tf_nn_relu conv_kwargs)"

definition conv_only ::
  "(nat \<times> nat \<times> nat) list \<Rightarrow> kwargs \<Rightarrow> shape \<Rightarrow> tensor \<times> state_dict option" where
  "conv_only convs conv_kwargs X =
     (let out = TrueDiv (Cast (Input X) tf_float32) 255
      in (conv_only_loop convs conv_kwargs out, None))"

subsection \<open>mlp\<close>

text \<open>
  The loop \<^verbatim>\<open>for i in range(num_layers)\<close>, run over the list of indices. Python
  evaluates \<^verbatim>\<open>activations[i]\<close> first, then the arguments of \<^verbatim>\<open>fc\<close>, among
  them \<^verbatim>\<open>hidden_layer_sizes[i]\<close>; either index raises when out of range.
\<close>

fun mlp_loop ::
  "nat list \<Rightarrow> activation list \<Rightarrow> nat list \<Rightarrow> tensor \<Rightarrow> error + tensor" where
  "mlp_loop hidden_layer_sizes activations [] h = Inr h"
| "mlp_loop hidden_layer_sizes activations (i # rest) h =
     (case py_index activations i of
        Inl e \<Rightarrow> Inl e
      | Inr act \<Rightarrow>
          (case py_index hidden_layer_sizes i of
             Inl e \<Rightarrow> Inl e
           | Inr nh \<Rightarrow>
               mlp_loop hidden_layer_sizes activations rest
                 (Activ act (Fc h (''mlp_fc'' @ str_nat i) nh (np_sqrt 2)))))"

text \<open>
  \<^verbatim>\<open>mlp(num_layers, num_hidden, activation)(X)\<close>. \<open>activation\<close> may be \<open>None\<close>;
  the default is \<^verbatim>\<open>tf.tanh\<close>.
\<close>

definition mlp ::
  "int \<Rightarrow> int \<Rightarrow> activation option \<Rightarrow> shape \<Rightarrow> error + tensor \<times> state_dict option" where
  "mlp num_layers num_hidden activation X =
     (let hidden_layer_sizes = [64, 64];
          activations = [tf_nn_relu, tf_nn_relu];
          h = Flatten (Input X)
      in case mlp_loop hidden_layer_sizes activations (py_range num_layers) h of
           Inl e \<Rightarrow> Inl e
         | Inr h \<Rightarrow> Inr (h, None))"

subsection \<open>lstm, cnn_lstm, cnn_lnlstm\<close>

text \<open>
  \<^verbatim>\<open>lstm(nlstm, layer_norm)(X, nenv)\<close>. \<^verbatim>\<open>X.shape[0]\<close> raises on a tensor of
  rank 0, \<^verbatim>\<open>nbatch // nenv\<close> raises on \<open>nenv = 0\<close>, and each of the two calls of
  \<^verbatim>\<open>batch_to_seq\<close> raises when its reshape does not fit.
  \<^verbatim>\<open>S.shape.as_list()\<close> is the shape the placeholder \<open>S\<close> was made with.
\<close>

definition lstm :: "nat \<Rightarrow> bool \<Rightarrow> shape \<Rightarrow> nat \<Rightarrow> (recurrent \<times> state_dict) built" where
  "lstm nlstm layer_norm X nenv fw =
     (case X of
        [] \<Rightarrow> Inl IndexError
      | nbatch # _ \<Rightarrow>
          (case py_floordiv nbatch nenv of
             Inl e \<Rightarrow> Inl e
           | Inr nsteps \<Rightarrow>
               (let h = Flatten (Input X);
                    M = Placeholder tf_float32 [nbatch];
                    S = Placeholder tf_float32 [nenv, 2 * nlstm]
                in case batch_to_seq fw h nenv nsteps of
                     Inl e \<Rightarrow> Inl e
                   | Inr xs \<Rightarrow>
                       (case batch_to_seq fw M nenv nsteps of
                          Inl e \<Rightarrow> Inl e
                        | Inr ms \<Rightarrow>
                            (let c = (if layer_norm
                                      then Cell utils_lnlstm xs ms S ''lnlstm'' nlstm
                                      else Cell utils_lstm xs ms S ''lstm'' nlstm);
                                 h = seq_to_batch_h5 c;
                                 initial_state = np_zeros [nenv, 2 * nlstm]
                             in Inr (h, [''S'' \<mapsto> TensorVal S, ''M'' \<mapsto> TensorVal M,
                                         ''state'' \<mapsto> StateVal (snew c),
                                         ''initial_state'' \<mapsto> ArrayVal initial_state]))))))"

text \<open>
  \<^verbatim>\<open>cnn_lstm(nlstm, layer_norm, **conv_kwargs)(X, nenv)\<close>: as \<open>lstm\<close>, over the
  features of \<open>nature_cnn\<close>; a convolution the framework rejects raises as well.
\<close>

definition cnn_lstm ::
  "nat \<Rightarrow> bool \<Rightarrow> kwargs \<Rightarrow> shape \<Rightarrow> nat \<Rightarrow> (recurrent \<times> state_dict) built" where
  "cnn_lstm nlstm layer_norm conv_kwargs X nenv fw =
     (case X of
        [] \<Rightarrow> Inl IndexError
      | nbatch # _ \<Rightarrow>
          (case py_floordiv nbatch nenv of
             Inl e \<Rightarrow> Inl e
           | Inr nsteps \<Rightarrow>
               (let h = nature_cnn (Input X) conv_kwargs;
                    M = Placeholder tf_float32 [nbatch];
                    S = Placeholder tf_float32 [nenv, 2 * nlstm]
                in case batch_to_seq fw h nenv nsteps of
                     Inl e \<Rightarrow> Inl e
                   | Inr xs \<Rightarrow>
                       (case batch_to_seq fw M nenv nsteps of
                          Inl e \<Rightarrow> Inl e
                        | Inr ms \<Rightarrow>
                            (let c = (if layer_norm
                                      then Cell utils_lnlstm xs ms S ''lnlstm'' nlstm
                                      else Cell utils_lstm xs ms S ''lstm'' nlstm);
                                 h = seq_to_batch_h5 c;
                                 initial_state = np_zeros [nenv, 2 * nlstm]
                             in Inr (h, [''S'' \<mapsto> TensorVal S, ''M'' \<mapsto> TensorVal M,
                                         ''state'' \<mapsto> StateVal (snew c),
                                         ''initial_state'' \<mapsto> ArrayVal initial_state]))))))"

definition cnn_lnlstm ::
  "nat \<Rightarrow> kwargs \<Rightarrow> shape \<Rightarrow> nat \<Rightarrow> (recurrent \<times> state_dict) built" where
  "cnn_lnlstm nlstm conv_kwargs = cnn_lstm nlstm True conv_kwargs"

subsection \<open>_normalize_clip_observation\<close>

text \<open>
  \<open>RunningMeanStd s\<close> is the estimator \<^verbatim>\<open>RunningMeanStd(shape=s)\<close>; \<open>rms_mean\<close>
  and \<open>rms_std\<close> are its attributes \<^verbatim>\<open>mean\<close> and \<^verbatim>\<open>std\<close>. The observation
  \<open>x\<close> is known by its shape, as \<open>X\<close> is.
\<close>

datatype rms = RunningMeanStd shape

datatype obs_tensor =
    Obs shape
  | rms_mean rms
  | rms_std rms
  | TfSub obs_tensor obs_tensor
  | TfDiv obs_tensor obs_tensor
  | clip_by_value obs_tensor real real

definition default_clip_range :: "real list" where
  "default_clip_range = [-5, 5]"

text \<open>
  \<^verbatim>\<open>x.shape[1:]\<close> is \<open>drop 1 x\<close>: a slice never raises. The name drops the
  leading underscore of the source's.
\<close>

definition normalize_clip_observation :: "shape \<Rightarrow> real list \<Rightarrow> error + obs_tensor \<times> rms" where
  "normalize_clip_observation x clip_range =
     (let r = RunningMeanStd (drop 1 x)
      in case py_min clip_range of
           Inl e \<Rightarrow> Inl e
         | Inr lo \<Rightarrow>
             (case py_max clip_range of
                Inl e \<Rightarrow> Inl e
              | Inr hi \<Rightarrow>
                  Inr (clip_by_value (TfDiv (TfSub (Obs x) (rms_mean r)) (rms_std r)) lo hi, r)))"

subsection \<open>get_network_builder\<close>

text \<open>
  What \<^verbatim>\<open>get_network_builder\<close> returns is one of the module's factory functions.
  They differ in their parameters, so a returned factory is the function itself under
  a constructor for its name.
\<close>

datatype builder =
    F_cnn "kwargs \<Rightarrow> shape \<Rightarrow> tensor \<times> state_dict option"
  | F_cnn_small "kwargs \<Rightarrow> shape \<Rightarrow> tensor \<times> state_dict option"
  | F_conv_only "(nat \<times> nat \<times> nat) list \<Rightarrow> kwargs \<Rightarrow> shape \<Rightarrow> tensor \<times> state_dict option"
  | F_mlp "int \<Rightarrow> int \<Rightarrow> activation option \<Rightarrow> shape \<Rightarrow> error + tensor \<times> state_dict option"
  | F_lstm "nat \<Rightarrow> bool \<Rightarrow> shape \<Rightarrow> nat \<Rightarrow> (recurrent \<times> state_dict) built"
  | F_cnn_lstm "nat \<Rightarrow> bool \<Rightarrow> kwargs \<Rightarrow> shape \<Rightarrow> nat \<Rightarrow> (recurrent \<times> state_dict) built"
  | F_cnn_lnlstm "nat \<Rightarrow> kwargs \<Rightarrow> shape \<Rightarrow> nat \<Rightarrow> (recurrent \<times> state_dict) built"

definition get_network_builder :: "string \<Rightarrow> error + builder" where
  "get_network_builder name =
     (if name = ''cnn'' then Inr (F_cnn cnn)
      else if name = ''cnn_small'' then Inr (F_cnn_small cnn_small)
      else if name = ''conv_only'' then Inr (F_conv_only conv_only)
      else if name = ''mlp'' then Inr (F_mlp mlp)
      else if name = ''lstm'' then Inr (F_lstm lstm)
      else if name = ''cnn_lstm'' then Inr (F_cnn_lstm cnn_lstm)
      else if name = ''cnn_lnlstm'' then Inr (F_cnn_lnlstm cnn_lnlstm)
      else Inl (ValueError (''Unknown network type: '' @ name)))"

section \<open>Reading a graph\<close>

subsection \<open>The sequence of layers\<close>

text \<open>
  The operations of a feed-forward graph in the order they are applied, without scope
  names, initialisation scales and keyword options. \<^verbatim>\<open>layers.convolution2d\<close>
  applies its \<^verbatim>\<open>activation_fn\<close> itself, so it counts as a convolution followed by
  that activation.
\<close>

datatype layer_op =
    OpCast dtype
  | OpDiv real
  | OpConv nat nat nat
  | OpAct activation
  | OpFlatten
  | OpDense nat

fun ops :: "tensor \<Rightarrow> layer_op list" where
  "ops (Input s) = []"
| "ops (Placeholder d s) = []"
| "ops (Cast t d) = ops t @ [OpCast d]"
| "ops (TrueDiv t c) = ops t @ [OpDiv c]"
| "ops (Activ a t) = ops t @ [OpAct a]"
| "ops (Conv t scope nf rf stride init_scale kw) = ops t @ [OpConv nf rf stride]"
| "ops (Fc t scope nh init_scale) = ops t @ [OpDense nh]"
| "ops (ConvToFc t) = ops t @ [OpFlatten]"
| "ops (Flatten t) = ops t @ [OpFlatten]"
| "ops (Convolution2d t scope n k stride a kw) = ops t @ [OpConv n k stride, OpAct a]"

text \<open>The tensor a graph starts from.\<close>

fun source :: "tensor \<Rightarrow> tensor" where
  "source (Cast t d) = source t"
| "source (TrueDiv t c) = source t"
| "source (Activ a t) = source t"
| "source (Conv t scope nf rf stride init_scale kw) = source t"
| "source (Fc t scope nh init_scale) = source t"
| "source (ConvToFc t) = source t"
| "source (Flatten t) = source t"
| "source (Convolution2d t scope n k stride a kw) = source t"
| "source t = t"

text \<open>The (filters, kernel, stride) triples of the convolutions among the operations.\<close>

fun conv_triples :: "layer_op list \<Rightarrow> (nat \<times> nat \<times> nat) list" where
  "conv_triples [] = []"
| "conv_triples (OpConv n k s # os) = (n, k, s) # conv_triples os"
| "conv_triples (_ # os) = conv_triples os"

subsection \<open>Forcing layer normalisation on a recurrent result\<close>

text \<open>
  The same cell call with \<^verbatim>\<open>utils.lnlstm\<close> under the scope \<^verbatim>\<open>lnlstm\<close> in place
  of \<^verbatim>\<open>utils.lstm\<close> under \<^verbatim>\<open>lstm\<close>: the inputs, the masks, the state
  placeholder and the width stay. \<open>result_ln\<close> does this to the output and to the
  updated state of a recurrent network function's result and leaves the placeholders
  and the initial state as they are.
\<close>

fun with_layer_norm :: "cell \<Rightarrow> cell" where
  "with_layer_norm (Cell k xs ms s scope nh) = Cell utils_lnlstm xs ms s ''lnlstm'' nh"

fun recurrent_ln :: "recurrent \<Rightarrow> recurrent" where
  "recurrent_ln (seq_to_batch_h5 c) = seq_to_batch_h5 (with_layer_norm c)"
| "recurrent_ln (snew c) = snew (with_layer_norm c)"

fun dict_value_ln :: "dict_value \<Rightarrow> dict_value" where
  "dict_value_ln (StateVal r) = StateVal (recurrent_ln r)"
| "dict_value_ln v = v"

definition result_ln :: "(recurrent \<times> state_dict) built \<Rightarrow> (recurrent \<times> state_dict) built" where
  "result_ln r fw =
     (case r fw of
        Inl e \<Rightarrow> Inl e
      | Inr (h, d) \<Rightarrow> Inr (recurrent_ln h, map_option dict_value_ln \<circ> d))"

section \<open>Properties\<close>

subsection \<open>Auxiliary facts\<close>

lemma str_nat_0: "str_nat 0 = ''0''"
  by (simp add: str_nat.simps digit_char_def)

lemma str_nat_1: "str_nat (Suc 0) = ''1''"
  by (simp add: str_nat.simps digit_char_def)

lemma py_range_nonpos: "n \<le> 0 \<Longrightarrow> py_range n = []"
  by (simp add: py_range_def)

lemma py_range_1: "py_range 1 = [0]"
  by (simp add: py_range_def)

lemma py_range_2: "py_range 2 = [0, Suc 0]"
  by (simp add: py_range_def upt_rec)

lemma py_range_ge3: "2 < n \<Longrightarrow> py_range n = 0 # Suc 0 # 2 # [3..<nat n]"
  by (simp add: py_range_def upt_rec numeral_3_eq_3 numeral_2_eq_2)

lemma mlp_nonpos:
  "num_layers \<le> 0 \<Longrightarrow> mlp num_layers num_hidden activation X = Inr (Flatten (Input X), None)"
  by (simp add: mlp_def py_range_nonpos)

lemma mlp_1:
  "mlp 1 num_hidden activation X =
     Inr (Activ tf_nn_relu (Fc (Flatten (Input X)) ''mlp_fc0'' 64 (np_sqrt 2)), None)"
  by (simp add: mlp_def py_range_1 py_index_def str_nat_0)

lemma mlp_2:
  "mlp 2 num_hidden activation X =
     Inr (Activ tf_nn_relu
            (Fc (Activ tf_nn_relu (Fc (Flatten (Input X)) ''mlp_fc0'' 64 (np_sqrt 2)))
                ''mlp_fc1'' 64 (np_sqrt 2)), None)"
  by (simp add: mlp_def py_range_2 py_index_def str_nat_0 str_nat_1)

lemma mlp_ge3:
  "2 < num_layers \<Longrightarrow> mlp num_layers num_hidden activation X = Inl IndexError"
  by (simp add: mlp_def py_range_ge3 py_index_def)

lemma nature_cnn_graph:
  "nature_cnn x kw =
     Activ tf_nn_relu
       (Fc (ConvToFc
             (Activ tf_nn_relu
               (Conv (Activ tf_nn_relu
                       (Conv (Activ tf_nn_relu
                               (Conv (TrueDiv (Cast x tf_float32) 255)
                                  ''c1'' 32 8 4 (np_sqrt 2) kw))
                          ''c2'' 64 4 2 (np_sqrt 2) kw))
                  ''c3'' 64 3 1 (np_sqrt 2) kw)))
          ''fc1'' 512 (np_sqrt 2))"
  by (simp add: nature_cnn_def Let_def)

lemma shape_of_nature_cnn_only:
  assumes "shape_of fw (nature_cnn (Input (N # s0)) kw) = Inr s"
  shows "s = [N, 512]"
proof -
  let ?x = "TrueDiv (Cast (Input (N # s0)) tf_float32) 255"
  let ?h1 = "Conv ?x ''c1'' 32 8 4 (np_sqrt 2) kw"
  let ?h2 = "Conv (Activ tf_nn_relu ?h1) ''c2'' 64 4 2 (np_sqrt 2) kw"
  let ?h3 = "Conv (Activ tf_nn_relu ?h2) ''c3'' 64 3 1 (np_sqrt 2) kw"
  have conv_batch: "\<exists>s'. shape_of fw (Conv t scope nf rf stride sc kw) = Inr (N # s')"
    if "shape_of fw (Conv t scope nf rf stride sc kw) = Inr u" "shape_of fw t = Inr (N # s1)"
    for t scope nf rf stride sc u s1
    using that by (auto split: option.splits)
  have fc: "\<exists>u. shape_of fw (ConvToFc (Activ tf_nn_relu ?h3)) = Inr u"
    using assms by (simp add: nature_cnn_graph split: sum.splits)
  then have h3: "\<exists>u. shape_of fw ?h3 = Inr u"
    by (auto split: sum.splits)
  then have h2: "\<exists>u. shape_of fw ?h2 = Inr u"
    by (auto split: sum.splits)
  then have h1: "\<exists>u. shape_of fw ?h1 = Inr u"
    by (auto split: sum.splits)
  have x: "shape_of fw ?x = Inr (N # s0)" by simp
  from h1 conv_batch [OF _ x] obtain s1 where s1: "shape_of fw ?h1 = Inr (N # s1)"
    by blast
  then have "shape_of fw (Activ tf_nn_relu ?h1) = Inr (N # s1)" by simp
  with h2 conv_batch obtain s2 where s2: "shape_of fw ?h2 = Inr (N # s2)"
    by blast
  then have "shape_of fw (Activ tf_nn_relu ?h2) = Inr (N # s2)" by simp
  with h3 conv_batch obtain s3 where s3: "shape_of fw ?h3 = Inr (N # s3)"
    by blast
  then have "shape_of fw (nature_cnn (Input (N # s0)) kw) = Inr [N, 512]"
    by (simp add: nature_cnn_graph)
  with assms show ?thesis by simp
qed

lemma ops_conv_only_loop:
  "ops (conv_only_loop convs kw out) =
     ops out @ concat (map (\<lambda>(n, k, s). [OpConv n k s, OpAct tf_nn_relu]) convs)"
  by (induction convs kw out rule: conv_only_loop.induct) simp_all

lemma source_conv_only_loop: "source (conv_only_loop convs kw out) = source out"
  by (induction convs kw out rule: conv_only_loop.induct) simp_all

lemma conv_triples_append: "conv_triples (xs @ ys) = conv_triples xs @ conv_triples ys"
  by (induction xs rule: conv_triples.induct) simp_all

lemma conv_triples_conv_relu:
  "conv_triples (concat (map (\<lambda>(n, k, s). [OpConv n k s, OpAct tf_nn_relu]) convs)) = convs"
  by (induction convs) auto

lemma split_fits:
  assumes "0 < (nenv :: nat)"
  shows "(0 < nenv * (nbatch div nenv) \<and> nbatch mod (nenv * (nbatch div nenv)) = 0) =
         (0 < nbatch \<and> nenv dvd nbatch)"
proof
  assume a: "0 < nenv * (nbatch div nenv) \<and> nbatch mod (nenv * (nbatch div nenv)) = 0"
  let ?q = "nbatch div nenv" and ?r = "nbatch mod nenv"
  from a have "0 < nenv * ?q" by blast
  then have q: "0 < ?q" by (cases "?q = 0") auto
  from a have d: "nenv * ?q dvd nbatch" by (simp add: dvd_eq_mod_eq_0)
  have r: "?r = nbatch - nenv * ?q" by (simp add: minus_mult_div_eq_mod)
  from d have "nenv * ?q dvd nbatch - nenv * ?q" by (rule dvd_diff_nat) simp
  then have "nenv * ?q dvd ?r" unfolding r .
  moreover have "?r < nenv * ?q"
  proof -
    have "?r < nenv" using assms by simp
    also have "nenv \<le> nenv * ?q" using q by simp
    finally show ?thesis .
  qed
  ultimately have "?r = 0" by (meson dvd_imp_le not_less zero_less_iff_neq_zero)
  then have "nenv dvd nbatch" by (simp add: dvd_eq_mod_eq_0)
  moreover from a have "0 < nbatch" by (cases "nbatch = 0") auto
  ultimately show "0 < nbatch \<and> nenv dvd nbatch" by simp
next
  assume b: "0 < nbatch \<and> nenv dvd nbatch"
  then have "nenv * (nbatch div nenv) = nbatch" by simp
  with b show "0 < nenv * (nbatch div nenv) \<and> nbatch mod (nenv * (nbatch div nenv)) = 0"
    by simp
qed

lemma conv_stack_fits: "36 \<le> (H::nat) \<Longrightarrow> 8 \<le> H \<and> 4 \<le> (H - 8) div 4 + 1 \<and> 3 \<le> ((H - 8) div 4 + 1 - 4) div 2 + 1"
  by presburger

lemma conv_stack_too_small: "(H::nat) < 36 \<Longrightarrow> \<not> (8 \<le> H \<and> 4 \<le> (H - 8) div 4 + 1 \<and> 3 \<le> ((H - 8) div 4 + 1 - 4) div 2 + 1)"
  by presburger

lemma unpadded_nature_cnn:
  "shape_of unpadded_conv (nature_cnn (Input [N, H, W, C]) kw) =
     (if 36 \<le> H \<and> 36 \<le> W then Inr [N, 512] else Inl ShapeError)"
proof (cases "36 \<le> H \<and> 36 \<le> W")
  case True
  with conv_stack_fits [of H] conv_stack_fits [of W] show ?thesis
    by (simp add: nature_cnn_graph unpadded_conv_def)
next
  case False
  with conv_stack_too_small [of H] conv_stack_too_small [of W] show ?thesis
    by (auto simp: nature_cnn_graph unpadded_conv_def)
qed

lemma shape_of_error: "shape_of fw t = Inl e \<Longrightarrow> e = ShapeError"
  by (induction t arbitrary: e)
    (auto split: sum.splits list.splits option.splits)

lemma batch_to_seq_error: "batch_to_seq fw h n k = Inl e \<Longrightarrow> e = ShapeError"
  by (auto simp: batch_to_seq_def shape_of_error split: sum.splits if_splits)

lemma batch_to_seq_result: "batch_to_seq fw h n k = Inr xs \<Longrightarrow> xs = BatchToSeq h n k"
  by (auto simp: batch_to_seq_def split: sum.splits if_splits)

lemma mask_split:
  assumes "0 < nenv"
  shows "batch_to_seq fw (Placeholder d [nbatch]) nenv (nbatch div nenv) =
     (if 0 < nbatch \<and> nenv dvd nbatch
      then Inr (BatchToSeq (Placeholder d [nbatch]) nenv (nbatch div nenv))
      else Inl ShapeError)"
  using split_fits [OF assms, of nbatch] by (simp add: batch_to_seq_def)

lemma features_split:
  assumes "0 < nenv" and "0 < nbatch" and "nenv dvd nbatch"
    and "shape_of fw h = Inr (nbatch # s)"
  shows "batch_to_seq fw h nenv (nbatch div nenv) = Inr (BatchToSeq h nenv (nbatch div nenv))"
  using assms by (simp add: batch_to_seq_def)

lemma lstm_zero: "lstm nlstm layer_norm (nbatch # rest) 0 fw = Inl ZeroDivisionError"
  by (simp add: lstm_def py_floordiv_def)

lemma cnn_lstm_zero: "cnn_lstm nlstm layer_norm kw (nbatch # rest) 0 fw = Inl ZeroDivisionError"
  by (simp add: cnn_lstm_def py_floordiv_def)

lemma lstm_not_multiple:
  assumes "0 < nenv" and "\<not> (0 < nbatch \<and> nenv dvd nbatch)"
  shows "lstm nlstm layer_norm (nbatch # rest) nenv fw = Inl ShapeError"
proof (cases "batch_to_seq fw (Flatten (Input (nbatch # rest))) nenv (nbatch div nenv)")
  case (Inl e)
  with assms batch_to_seq_error [OF Inl] show ?thesis
    by (simp add: lstm_def py_floordiv_def)
next
  case (Inr xs)
  have "batch_to_seq fw (Placeholder tf_float32 [nbatch]) nenv (nbatch div nenv) = Inl ShapeError"
    using assms by (auto simp: mask_split)
  with assms(1) Inr show ?thesis
    by (simp add: lstm_def py_floordiv_def)
qed

lemma cnn_lstm_not_multiple:
  assumes "0 < nenv" and "\<not> (0 < nbatch \<and> nenv dvd nbatch)"
  shows "cnn_lstm nlstm layer_norm kw (nbatch # rest) nenv fw = Inl ShapeError"
proof (cases "batch_to_seq fw (nature_cnn (Input (nbatch # rest)) kw) nenv (nbatch div nenv)")
  case (Inl e)
  with assms batch_to_seq_error [OF Inl] show ?thesis
    by (simp add: cnn_lstm_def py_floordiv_def)
next
  case (Inr xs)
  have "batch_to_seq fw (Placeholder tf_float32 [nbatch]) nenv (nbatch div nenv) = Inl ShapeError"
    using assms by (auto simp: mask_split)
  with assms(1) Inr show ?thesis
    by (simp add: cnn_lstm_def py_floordiv_def)
qed

lemma lstm_multiple:
  assumes "0 < nenv" and "0 < nbatch" and "nenv dvd nbatch"
  shows "lstm nlstm layer_norm (nbatch # rest) nenv fw =
     (let c = Cell (if layer_norm then utils_lnlstm else utils_lstm)
                (BatchToSeq (Flatten (Input (nbatch # rest))) nenv (nbatch div nenv))
                (BatchToSeq (Placeholder tf_float32 [nbatch]) nenv (nbatch div nenv))
                (Placeholder tf_float32 [nenv, 2 * nlstm])
                (if layer_norm then ''lnlstm'' else ''lstm'') nlstm
      in Inr (seq_to_batch_h5 c,
              [''S'' \<mapsto> TensorVal (Placeholder tf_float32 [nenv, 2 * nlstm]),
               ''M'' \<mapsto> TensorVal (Placeholder tf_float32 [nbatch]),
               ''state'' \<mapsto> StateVal (snew c),
               ''initial_state'' \<mapsto> ArrayVal (np_zeros [nenv, 2 * nlstm])]))"
proof -
  have "shape_of fw (Flatten (Input (nbatch # rest))) = Inr [nbatch, prod_list rest]"
    by simp
  from features_split [OF assms this] assms show ?thesis
    by (simp add: lstm_def py_floordiv_def mask_split Let_def)
qed

lemma cnn_lstm_accepted:
  assumes "0 < nenv" and "0 < nbatch" and "nenv dvd nbatch"
    and "shape_of fw (nature_cnn (Input (nbatch # rest)) kw) = Inr (nbatch # s)"
  shows "cnn_lstm nlstm layer_norm kw (nbatch # rest) nenv fw =
     (let c = Cell (if layer_norm then utils_lnlstm else utils_lstm)
                (BatchToSeq (nature_cnn (Input (nbatch # rest)) kw) nenv (nbatch div nenv))
                (BatchToSeq (Placeholder tf_float32 [nbatch]) nenv (nbatch div nenv))
                (Placeholder tf_float32 [nenv, 2 * nlstm])
                (if layer_norm then ''lnlstm'' else ''lstm'') nlstm
      in Inr (seq_to_batch_h5 c,
              [''S'' \<mapsto> TensorVal (Placeholder tf_float32 [nenv, 2 * nlstm]),
               ''M'' \<mapsto> TensorVal (Placeholder tf_float32 [nbatch]),
               ''state'' \<mapsto> StateVal (snew c),
               ''initial_state'' \<mapsto> ArrayVal (np_zeros [nenv, 2 * nlstm])]))"
  using features_split [OF assms] assms(1-3)
  by (simp add: cnn_lstm_def py_floordiv_def mask_split Let_def)

lemma lstm_returns:
  assumes "lstm nlstm layer_norm (nbatch # rest) nenv fw = Inr (h, d)"
  shows "0 < nenv \<and> 0 < nbatch \<and> nenv dvd nbatch"
proof -
  have n: "0 < nenv"
  proof (rule ccontr)
    assume "\<not> 0 < nenv"
    then have "nenv = 0" by simp
    with assms show False by (simp add: lstm_zero)
  qed
  have "0 < nbatch \<and> nenv dvd nbatch"
  proof (rule ccontr)
    assume "\<not> (0 < nbatch \<and> nenv dvd nbatch)"
    from lstm_not_multiple [OF n this] assms show False by simp
  qed
  with n show ?thesis by simp
qed

lemma cnn_lstm_returns:
  assumes "cnn_lstm nlstm layer_norm kw (nbatch # rest) nenv fw = Inr (h, d)"
  shows "0 < nenv \<and> 0 < nbatch \<and> nenv dvd nbatch \<and>
     (\<exists>s. shape_of fw (nature_cnn (Input (nbatch # rest)) kw) = Inr s)"
proof -
  have n: "0 < nenv"
  proof (rule ccontr)
    assume "\<not> 0 < nenv"
    then have "nenv = 0" by simp
    with assms show False by (simp add: cnn_lstm_zero)
  qed
  have m: "0 < nbatch \<and> nenv dvd nbatch"
  proof (rule ccontr)
    assume "\<not> (0 < nbatch \<and> nenv dvd nbatch)"
    from cnn_lstm_not_multiple [OF n this] assms show False by simp
  qed
  have "\<exists>s. shape_of fw (nature_cnn (Input (nbatch # rest)) kw) = Inr s"
  proof (cases "shape_of fw (nature_cnn (Input (nbatch # rest)) kw)")
    case (Inl e)
    then have "cnn_lstm nlstm layer_norm kw (nbatch # rest) nenv fw = Inl e"
      using n by (simp add: cnn_lstm_def py_floordiv_def batch_to_seq_def)
    with assms show ?thesis by simp
  next
    case (Inr s)
    then show ?thesis by blast
  qed
  with n m show ?thesis by simp
qed

lemma cnn_lstm_nil: "cnn_lstm nlstm layer_norm kw [] nenv fw = Inl IndexError"
  by (simp add: cnn_lstm_def)

lemma result_ln_cnn_lstm:
  "result_ln (cnn_lstm nlstm layer_norm kw X nenv) = cnn_lstm nlstm True kw X nenv"
proof (rule ext)
  fix fw
  show "result_ln (cnn_lstm nlstm layer_norm kw X nenv) fw = cnn_lstm nlstm True kw X nenv fw"
  proof (cases X)
    case Nil
    then show ?thesis by (simp add: cnn_lstm_nil result_ln_def)
  next
    case (Cons nbatch rest)
    show ?thesis
    proof (cases "py_floordiv nbatch nenv")
      case (Inl e)
      with Cons show ?thesis by (simp add: cnn_lstm_def result_ln_def)
    next
      case nsteps: (Inr nsteps)
      show ?thesis
      proof (cases "batch_to_seq fw (nature_cnn (Input X) kw) nenv nsteps")
        case (Inl e)
        with Cons nsteps show ?thesis by (simp add: cnn_lstm_def result_ln_def)
      next
        case xs: (Inr xs)
        show ?thesis
        proof (cases "batch_to_seq fw (Placeholder tf_float32 [nbatch]) nenv nsteps")
          case (Inl e)
          with Cons nsteps xs show ?thesis by (simp add: cnn_lstm_def result_ln_def)
        next
          case (Inr ms)
          with Cons nsteps xs show ?thesis
            by (auto simp: cnn_lstm_def result_ln_def Let_def fun_eq_iff)
        qed
      qed
    qed
  qed
qed

lemma fold_min_Min: "fold min xs x = Min (set (x # xs))"
  by (rule Min.set_eq_fold [symmetric])

lemma fold_max_Max: "fold max xs x = Max (set (x # xs))"
  by (rule Max.set_eq_fold [symmetric])

subsection \<open>The claims\<close>

text \<open>
  C1. For each of the seven names \<open>cnn\<close>, \<open>cnn_small\<close>, \<open>conv_only\<close>, \<open>mlp\<close>,
  \<open>lstm\<close>, \<open>cnn_lstm\<close>, \<open>cnn_lnlstm\<close>, \<open>get_network_builder\<close> returns the factory of
  that name; for every other name it raises the error \<open>Unknown network type\<close> with the
  name: there is no partial match and no default.
\<close>

theorem get_network_builder_closed:
  "get_network_builder ''cnn'' = Inr (F_cnn cnn) \<and>
   get_network_builder ''cnn_small'' = Inr (F_cnn_small cnn_small) \<and>
   get_network_builder ''conv_only'' = Inr (F_conv_only conv_only) \<and>
   get_network_builder ''mlp'' = Inr (F_mlp mlp) \<and>
   get_network_builder ''lstm'' = Inr (F_lstm lstm) \<and>
   get_network_builder ''cnn_lstm'' = Inr (F_cnn_lstm cnn_lstm) \<and>
   get_network_builder ''cnn_lnlstm'' = Inr (F_cnn_lnlstm cnn_lnlstm) \<and>
   (name \<notin> {''cnn'', ''cnn_small'', ''conv_only'', ''mlp'', ''lstm'', ''cnn_lstm'', ''cnn_lnlstm''}
      \<longrightarrow> get_network_builder name = Inl (ValueError (''Unknown network type: '' @ name)))"
  by (simp add: get_network_builder_def)

theorem get_network_builder_closed_witness:
  "get_network_builder ''bogus'' = Inl (ValueError ''Unknown network type: bogus'') \<and>
   get_network_builder ''cn'' = Inl (ValueError ''Unknown network type: cn'') \<and>
   get_network_builder ''cnn_'' = Inl (ValueError ''Unknown network type: cnn_'') \<and>
   get_network_builder [] = Inl (ValueError ''Unknown network type: '')"
  using get_network_builder_closed [of "''bogus''"] get_network_builder_closed [of "''cn''"]
    get_network_builder_closed [of "''cnn_''"] get_network_builder_closed [of "[]"]
  by simp

text \<open>
  C2 (as amended). For every input of shape \<open>[N, H, W, C]\<close>, every \<open>num_hidden\<close> and
  every \<open>activation\<close>, and for \<open>num_layers\<close> 1 or 2 (2 is the default), the network
  function of \<open>mlp\<close> returns a tensor of shape \<open>[N, 64]\<close> and \<open>None\<close> as state.
\<close>

theorem mlp_shape_one_or_two_layers:
  assumes "num_layers = 1 \<or> num_layers = 2"
  shows "\<exists>h. mlp num_layers num_hidden activation [N, H, W, C] = Inr (h, None) \<and>
             shape_of fw h = Inr [N, 64]"
  using assms by (auto simp: mlp_1 mlp_2)

theorem mlp_shape_one_or_two_layers_witness:
  "\<exists>h. mlp 2 256 (Some tf_tanh) [7, 84, 84, 4] = Inr (h, None) \<and>
       shape_of unpadded_conv h = Inr [7, 64]"
  using mlp_shape_one_or_two_layers [of 2 256 "Some tf_tanh" 7 84 84 4 unpadded_conv]
  by simp

text \<open>
  C2 as stated fails: with \<open>num_layers = 0\<close> the loop builds no layer and the result is
  the flattened input, of shape \<open>[1, 4]\<close> for an input of shape \<open>[1, 2, 2, 1]\<close>.
\<close>

theorem mlp_shape_counterexample:
  "mlp 0 64 (Some tf_tanh) [1, 2, 2, 1] = Inr (Flatten (Input [1, 2, 2, 1]), None) \<and>
   shape_of unpadded_conv (Flatten (Input [1, 2, 2, 1])) = Inr [1, 4] \<and>
   [1, 4] \<noteq> [1, 64 :: nat]"
  by (simp add: mlp_nonpos)

text \<open>
  C3 (as amended). \<open>mlp\<close> flattens its input and then applies \<open>num_layers\<close> dense layers
  of width 64, each with rectified-linear activation, for \<open>num_layers \<le> 2\<close> (none when
  \<open>num_layers \<le> 0\<close>, exactly two for the default 2): \<open>num_hidden\<close> and \<open>activation\<close>
  are overridden by the hard-coded lists and change nothing, \<open>num_layers\<close> is not
  overridden.
\<close>

theorem mlp_overrides_num_hidden_and_activation:
  "mlp num_layers num_hidden activation X = mlp num_layers num_hidden' activation' X \<and>
   (num_layers \<le> 2 \<longrightarrow>
      (\<exists>h. mlp num_layers num_hidden activation X = Inr (h, None) \<and>
           source h = Input X \<and>
           ops h = OpFlatten #
             concat (replicate (nat num_layers) [OpDense 64, OpAct tf_nn_relu]))) \<and>
   mlp 2 num_hidden activation X =
     Inr (Activ tf_nn_relu
            (Fc (Activ tf_nn_relu (Fc (Flatten (Input X)) ''mlp_fc0'' 64 (np_sqrt 2)))
                ''mlp_fc1'' 64 (np_sqrt 2)), None)"
proof -
  have same: "mlp num_layers num_hidden activation X = mlp num_layers num_hidden' activation' X"
    by (simp add: mlp_def)
  have layers: "\<exists>h. mlp num_layers num_hidden activation X = Inr (h, None) \<and>
           source h = Input X \<and>
           ops h = OpFlatten #
             concat (replicate (nat num_layers) [OpDense 64, OpAct tf_nn_relu])"
    if "num_layers \<le> 2"
  proof -
    from that consider "num_layers \<le> 0" | "num_layers = 1" | "num_layers = 2"
      by linarith
    then show ?thesis
    proof cases
      case 1
      then show ?thesis by (simp add: mlp_nonpos)
    next
      case 2
      then show ?thesis by (simp add: mlp_1)
    next
      case 3
      then show ?thesis by (simp add: mlp_2 numeral_2_eq_2)
    qed
  qed
  from same layers show ?thesis
    by (simp add: mlp_2)
qed

theorem mlp_overrides_num_hidden_and_activation_witness:
  "mlp 2 256 None [3, 5] = mlp 2 64 (Some tf_tanh) [3, 5] \<and>
   (\<exists>h. mlp 2 256 None [3, 5] = Inr (h, None) \<and>
        source h = Input [3, 5] \<and>
        ops h = [OpFlatten, OpDense 64, OpAct tf_nn_relu, OpDense 64, OpAct tf_nn_relu])"
proof -
  note t = mlp_overrides_num_hidden_and_activation [of 2 256 None "[3, 5]" 64 "Some tf_tanh"]
  have r: "concat (replicate (nat 2) [OpDense 64, OpAct tf_nn_relu]) =
      [OpDense 64, OpAct tf_nn_relu, OpDense 64, OpAct tf_nn_relu]"
    by (simp add: numeral_2_eq_2)
  from t have a: "mlp 2 256 None [3, 5] = mlp 2 64 (Some tf_tanh) [3, 5]"
    by blast
  from t have "(2 :: int) \<le> 2 \<longrightarrow>
      (\<exists>h. mlp 2 256 None [3, 5] = Inr (h, None) \<and>
           source h = Input [3, 5] \<and>
           ops h = OpFlatten # concat (replicate (nat 2) [OpDense 64, OpAct tf_nn_relu]))"
    by blast
  then have "\<exists>h. mlp 2 256 None [3, 5] = Inr (h, None) \<and>
           source h = Input [3, 5] \<and>
           ops h = OpFlatten # concat (replicate (nat 2) [OpDense 64, OpAct tf_nn_relu])"
    by simp
  then obtain h where h: "mlp 2 256 None [3, 5] = Inr (h, None)" "source h = Input [3, 5]"
    "ops h = OpFlatten # concat (replicate (nat 2) [OpDense 64, OpAct tf_nn_relu])"
    by blast
  from h(3) have "ops h = [OpFlatten, OpDense 64, OpAct tf_nn_relu, OpDense 64, OpAct tf_nn_relu]"
    unfolding r .
  with a h(1,2) show ?thesis by blast
qed

text \<open>
  C3 as stated fails: \<open>num_layers\<close> is not overridden; with \<open>num_layers = 1\<close> the network
  has one dense layer, not two.
\<close>

theorem mlp_two_layers_counterexample:
  "mlp 1 64 (Some tf_tanh) [1, 4] =
     Inr (Activ tf_nn_relu (Fc (Flatten (Input [1, 4])) ''mlp_fc0'' 64 (np_sqrt 2)), None) \<and>
   mlp 1 64 (Some tf_tanh) [1, 4] \<noteq> mlp 2 64 (Some tf_tanh) [1, 4]"
  by (simp add: mlp_1 mlp_2)

text \<open>
  C4 (as amended). The network function of \<open>cnn\<close> casts the input to float and
  divides it by 255, applies three convolutions with 32, 64, 64 filters, kernels 8, 4, 3
  and strides 4, 2, 1, each initialised with scale \<open>sqrt 2\<close> and followed by a
  rectified-linear activation, flattens, applies one fully-connected layer of width 512
  with rectified-linear activation, and returns \<open>None\<close> as state. On an input of shape
  \<open>[N, H, W, C]\<close> the output has shape \<open>[N, 512]\<close> provided the framework accepts the
  three convolutions, and no other shape is possible; for convolutions without padding
  they are accepted exactly when \<open>H \<ge> 36\<close> and \<open>W \<ge> 36\<close>, and a smaller input is a
  shape error of the framework.
\<close>

theorem cnn_nature_stack:
  "cnn conv_kwargs X =
     (Activ tf_nn_relu
       (Fc (ConvToFc
             (Activ tf_nn_relu
               (Conv (Activ tf_nn_relu
                       (Conv (Activ tf_nn_relu
                               (Conv (TrueDiv (Cast (Input X) tf_float32) 255)
                                  ''c1'' 32 8 4 (np_sqrt 2) conv_kwargs))
                          ''c2'' 64 4 2 (np_sqrt 2) conv_kwargs))
                  ''c3'' 64 3 1 (np_sqrt 2) conv_kwargs)))
          ''fc1'' 512 (np_sqrt 2)), None) \<and>
   ops (fst (cnn conv_kwargs X)) =
     [OpCast tf_float32, OpDiv 255,
      OpConv 32 8 4, OpAct tf_nn_relu, OpConv 64 4 2, OpAct tf_nn_relu,
      OpConv 64 3 1, OpAct tf_nn_relu, OpFlatten, OpDense 512, OpAct tf_nn_relu] \<and>
   (fw a2c_conv conv_kwargs [H, W, C] 32 8 4 = Some sa \<and>
    fw a2c_conv conv_kwargs sa 64 4 2 = Some sb \<and>
    fw a2c_conv conv_kwargs sb 64 3 1 = Some sc \<longrightarrow>
      shape_of fw (fst (cnn conv_kwargs [N, H, W, C])) = Inr [N, 512] \<and>
      snd (cnn conv_kwargs [N, H, W, C]) = None) \<and>
   (shape_of fw (fst (cnn conv_kwargs [N, H, W, C])) = Inr s \<longrightarrow> s = [N, 512]) \<and>
   shape_of unpadded_conv (fst (cnn conv_kwargs [N, H, W, C])) =
     (if 36 \<le> H \<and> 36 \<le> W then Inr [N, 512] else Inl ShapeError)"
proof -
  have only: "shape_of fw (fst (cnn conv_kwargs [N, H, W, C])) = Inr s \<longrightarrow> s = [N, 512]"
    using shape_of_nature_cnn_only [of fw N "[H, W, C]" conv_kwargs s]
    by (simp add: cnn_def)
  have unpadded: "shape_of unpadded_conv (fst (cnn conv_kwargs [N, H, W, C])) =
     (if 36 \<le> H \<and> 36 \<le> W then Inr [N, 512] else Inl ShapeError)"
    by (simp add: cnn_def unpadded_nature_cnn)
  show ?thesis
    by (intro conjI only unpadded) (simp_all add: cnn_def nature_cnn_graph)
qed

theorem cnn_nature_stack_witness:
  "unpadded_conv a2c_conv [] [84, 84, 4] 32 8 4 = Some [20, 20, 32] \<and>
   unpadded_conv a2c_conv [] [20, 20, 32] 64 4 2 = Some [9, 9, 64] \<and>
   unpadded_conv a2c_conv [] [9, 9, 64] 64 3 1 = Some [7, 7, 64] \<and>
   shape_of unpadded_conv (fst (cnn [] [5, 84, 84, 4])) = Inr [5, 512] \<and>
   snd (cnn [] [5, 84, 84, 4]) = None"
proof -
  have a: "unpadded_conv a2c_conv [] [84, 84, 4] 32 8 4 = Some [20, 20, 32]"
    by (simp add: unpadded_conv_def)
  have b: "unpadded_conv a2c_conv [] [20, 20, 32] 64 4 2 = Some [9, 9, 64]"
    by (simp add: unpadded_conv_def)
  have c: "unpadded_conv a2c_conv [] [9, 9, 64] 64 3 1 = Some [7, 7, 64]"
    by (simp add: unpadded_conv_def)
  note t = cnn_nature_stack [of "[]" "[5, 84, 84, 4]" unpadded_conv 84 84 4 "[20, 20, 32]"
        "[9, 9, 64]" "[7, 7, 64]" 5]
  from t a b c have "shape_of unpadded_conv (fst (cnn [] [5, 84, 84, 4])) = Inr [5, 512] \<and>
      snd (cnn [] [5, 84, 84, 4]) = None"
    by blast
  with a b c show ?thesis by blast
qed

text \<open>
  C4 as stated, for an input of any height and width, fails: on a 35 by 35 image the
  third convolution does not fit and no output of shape \<open>[N, 512]\<close> is built.
\<close>

theorem cnn_small_image_counterexample:
  "shape_of unpadded_conv (fst (cnn [] [1, 35, 35, 3])) = Inl ShapeError"
  by (simp add: cnn_def unpadded_nature_cnn)

text \<open>
  C5 (as amended). For every hidden size \<open>nlstm\<close> and every environment count
  \<open>nenv \<ge> 1\<close> that divides the batch size \<open>nbatch \<ge> 1\<close> of the input, the network
  function of \<open>lstm nlstm\<close> returns a state dictionary with exactly the keys \<open>S\<close>,
  \<open>M\<close>, \<open>state\<close> and \<open>initial_state\<close>: the mask placeholder of shape \<open>[nbatch]\<close>, the
  state placeholder of shape \<open>[nenv, 2 * nlstm]\<close>, the updated state of the cell that
  reads both, and an array of zeros of the state placeholder's shape.
\<close>

theorem lstm_state_dict:
  assumes "0 < nenv" and "0 < nbatch" and "nenv dvd nbatch"
  shows "\<exists>c d a. lstm nlstm layer_norm (nbatch # rest) nenv fw = Inr (seq_to_batch_h5 c, d) \<and>
     dom d = {''S'', ''M'', ''state'', ''initial_state''} \<and>
     d ''M'' = Some (TensorVal (Placeholder tf_float32 [nbatch])) \<and>
     d ''S'' = Some (TensorVal (Placeholder tf_float32 [nenv, 2 * nlstm])) \<and>
     cell_ms c = BatchToSeq (Placeholder tf_float32 [nbatch]) nenv (nbatch div nenv) \<and>
     cell_s c = Placeholder tf_float32 [nenv, 2 * nlstm] \<and>
     cell_nh c = nlstm \<and>
     d ''state'' = Some (StateVal (snew c)) \<and>
     d ''initial_state'' = Some (ArrayVal a) \<and>
     np_shape a = [nenv, 2 * nlstm] \<and>
     np_data a = replicate (nenv * (2 * nlstm)) 0"
  by (auto simp: lstm_multiple [OF assms] Let_def np_zeros_def)

theorem lstm_state_dict_witness:
  "\<exists>c d a. lstm 128 False [6, 10] 2 unpadded_conv = Inr (seq_to_batch_h5 c, d) \<and>
     dom d = {''S'', ''M'', ''state'', ''initial_state''} \<and>
     d ''M'' = Some (TensorVal (Placeholder tf_float32 [6])) \<and>
     d ''S'' = Some (TensorVal (Placeholder tf_float32 [2, 256])) \<and>
     cell_ms c = BatchToSeq (Placeholder tf_float32 [6]) 2 3 \<and>
     cell_s c = Placeholder tf_float32 [2, 256] \<and>
     cell_nh c = 128 \<and>
     d ''state'' = Some (StateVal (snew c)) \<and>
     d ''initial_state'' = Some (ArrayVal a) \<and>
     np_shape a = [2, 256] \<and>
     np_data a = replicate 512 0"
  using lstm_state_dict [of 2 6 128 False "[10]" unpadded_conv] by simp

text \<open>
  C5 as stated, for every environment count, fails: with 2 environments and a batch of
  5 the reshape of \<open>batch_to_seq\<close> does not fit, the network function raises and no
  state dictionary is returned.
\<close>

theorem lstm_batch_not_multiple_counterexample:
  "lstm 128 False [5, 10] 2 unpadded_conv = Inl ShapeError"
  by (rule lstm_not_multiple) simp_all

text \<open>
  C6. \<open>cnn_lnlstm nlstm\<close> with keyword options is \<open>cnn_lstm nlstm\<close> with
  \<open>layer_norm = True\<close> and the same options: the same network function, hence the same
  output and state dictionary on every input. Against \<open>cnn_lstm\<close> without layer
  normalisation the result differs in the recurrent cell only, which is the
  layer-normalised one.
\<close>

theorem cnn_lnlstm_is_cnn_lstm_layer_norm:
  "cnn_lnlstm nlstm conv_kwargs = cnn_lstm nlstm True conv_kwargs \<and>
   cnn_lnlstm nlstm conv_kwargs X nenv = cnn_lstm nlstm True conv_kwargs X nenv \<and>
   cnn_lnlstm nlstm conv_kwargs X nenv = result_ln (cnn_lstm nlstm False conv_kwargs X nenv)"
  by (simp add: cnn_lnlstm_def result_ln_cnn_lstm)

text \<open>
  C7 (as amended). \<open>cnn_small\<close> is a fixed network of two convolutions (8 filters,
  kernel 8, stride 4; 16 filters, kernel 4, stride 2), flattening and a dense layer of
  width 128, which no list of triples configures. \<open>conv_only\<close> applies one convolution
  with rectified-linear activation for every triple (filters, kernel, stride) of its
  ordered list \<open>convs\<close>, as many as the list has and three by default, and nothing
  else. Both cast the input to float and divide it by 255 first, follow every layer
  with a rectified-linear activation, and return \<open>None\<close> as state.
\<close>

theorem small_conv_builders:
  "cnn_small conv_kwargs X =
     (Activ tf_nn_relu
       (Fc (ConvToFc
             (Activ tf_nn_relu
               (Conv (Activ tf_nn_relu
                       (Conv (TrueDiv (Cast (Input X) tf_float32) 255)
                          ''c1'' 8 8 4 (np_sqrt 2) conv_kwargs))
                  ''c2'' 16 4 2 (np_sqrt 2) conv_kwargs)))
          ''fc1'' 128 (np_sqrt 2)), None) \<and>
   conv_triples (ops (fst (cnn_small conv_kwargs X))) = [(8, 8, 4), (16, 4, 2)] \<and>
   ops (fst (conv_only convs conv_kwargs X)) =
     [OpCast tf_float32, OpDiv 255] @
     concat (map (\<lambda>(n, k, s). [OpConv n k s, OpAct tf_nn_relu]) convs) \<and>
   conv_triples (ops (fst (conv_only convs conv_kwargs X))) = convs \<and>
   source (fst (conv_only convs conv_kwargs X)) = Input X \<and>
   snd (conv_only convs conv_kwargs X) = None \<and>
   conv_triples (ops (fst (conv_only conv_only_default_convs conv_kwargs X))) =
     [(32, 8, 4), (64, 4, 2), (64, 3, 1)]"
  by (simp add: cnn_small_def conv_only_def Let_def ops_conv_only_loop source_conv_only_loop
      conv_triples_append conv_triples_conv_relu conv_only_default_convs_def)

text \<open>
  C7 as stated fails: \<open>conv_only\<close> with its default list has three convolutions, not
  two, and has as many as its list in general, while the convolutions of \<open>cnn_small\<close>
  are fixed.
\<close>

theorem conv_only_two_layers_counterexample:
  "conv_triples (ops (fst (conv_only conv_only_default_convs [] [1, 84, 84, 4]))) =
     [(32, 8, 4), (64, 4, 2), (64, 3, 1)] \<and>
   length (conv_triples (ops (fst (conv_only conv_only_default_convs [] [1, 84, 84, 4])))) \<noteq> 2 \<and>
   conv_triples (ops (fst (conv_only [(5, 3, 1)] [] [1, 84, 84, 4]))) = [(5, 3, 1)] \<and>
   conv_triples (ops (fst (cnn_small [] [1, 84, 84, 4]))) = [(8, 8, 4), (16, 4, 2)]"
  by (simp add: conv_only_def conv_only_default_convs_def cnn_small_def Let_def)

text \<open>
  C8. \<open>_normalize_clip_observation x\<close> makes a running mean and standard deviation
  estimator over the shape of \<open>x\<close> without its first dimension, subtracts the
  estimator's mean from \<open>x\<close>, divides by its standard deviation, clips the quotient
  to the least and the greatest element of \<open>clip_range\<close>, which are \<open>-5\<close> and \<open>5\<close> by
  default, and returns the clipped tensor with the estimator.
\<close>

theorem normalize_clip_observation_graph:
  assumes "clip_range \<noteq> []"
  shows "normalize_clip_observation x clip_range =
     Inr (clip_by_value
            (TfDiv (TfSub (Obs x) (rms_mean (RunningMeanStd (drop 1 x))))
                   (rms_std (RunningMeanStd (drop 1 x))))
            (Min (set clip_range)) (Max (set clip_range)),
          RunningMeanStd (drop 1 x)) \<and>
   normalize_clip_observation x default_clip_range =
     Inr (clip_by_value
            (TfDiv (TfSub (Obs x) (rms_mean (RunningMeanStd (drop 1 x))))
                   (rms_std (RunningMeanStd (drop 1 x))))
            (- 5) 5,
          RunningMeanStd (drop 1 x))"
proof -
  from assms obtain c cs where "clip_range = c # cs" by (cases clip_range) auto
  then show ?thesis
    by (simp add: normalize_clip_observation_def default_clip_range_def Let_def
        fold_min_Min fold_max_Max del: set_simps)
qed

theorem normalize_clip_observation_graph_witness:
  "normalize_clip_observation [32, 84, 84, 4] [3, -1, 2] =
     Inr (clip_by_value
            (TfDiv (TfSub (Obs [32, 84, 84, 4]) (rms_mean (RunningMeanStd [84, 84, 4])))
                   (rms_std (RunningMeanStd [84, 84, 4])))
            (- 1) 3,
          RunningMeanStd [84, 84, 4])"
  using normalize_clip_observation_graph [of "[3, -1, 2]" "[32, 84, 84, 4]"] by simp

text \<open>
  C9. The network function of \<open>mlp\<close> runs its layer loop \<open>num_layers\<close> times: for
  \<open>num_layers > 2\<close> it raises an index error, the hard-coded lists of sizes and
  activations having two entries; for \<open>num_layers = 1\<close> it builds one layer, for
  \<open>num_layers = 0\<close> none and returns the flattened input, for \<open>num_layers = 2\<close> two.
\<close>

theorem mlp_layers_follow_num_layers:
  "(2 < num_layers \<longrightarrow> mlp num_layers num_hidden activation X = Inl IndexError) \<and>
   mlp 1 num_hidden activation X =
     Inr (Activ tf_nn_relu (Fc (Flatten (Input X)) ''mlp_fc0'' 64 (np_sqrt 2)), None) \<and>
   mlp 0 num_hidden activation X = Inr (Flatten (Input X), None) \<and>
   mlp 2 num_hidden activation X =
     Inr (Activ tf_nn_relu
            (Fc (Activ tf_nn_relu (Fc (Flatten (Input X)) ''mlp_fc0'' 64 (np_sqrt 2)))
                ''mlp_fc1'' 64 (np_sqrt 2)), None)"
  by (simp add: mlp_ge3 mlp_1 mlp_2 mlp_nonpos)

theorem mlp_layers_follow_num_layers_witness:
  "mlp 3 64 (Some tf_tanh) [1, 2, 2, 1] = Inl IndexError \<and>
   mlp 17 256 None [5, 3] = Inl IndexError"
  using mlp_layers_follow_num_layers [of 3 64 "Some tf_tanh" "[1, 2, 2, 1]"]
    mlp_layers_follow_num_layers [of 17 256 None "[5, 3]"]
  by simp

text \<open>
  C10 (as amended). In \<open>lstm\<close> and in \<open>cnn_lstm\<close> the step count is the floor division
  of the batch size by the environment count, which raises for \<open>nenv = 0\<close>. The module
  itself does not check that the batch size is a multiple of \<open>nenv\<close>, but the reshape of
  \<open>batch_to_seq\<close> raises for a batch that is not a positive multiple of \<open>nenv\<close>; so
  whenever a network function returns, the features and the mask are split into \<open>nenv\<close>
  sequences of \<open>nbatch div nenv\<close> steps and \<open>nenv * (nbatch div nenv)\<close> is the whole
  batch: no element is left out.
\<close>

theorem step_count_is_floor_division:
  "(nenv = 0 \<longrightarrow>
      lstm nlstm layer_norm (nbatch # rest) nenv fw = Inl ZeroDivisionError \<and>
      cnn_lstm nlstm layer_norm conv_kwargs (nbatch # rest) nenv fw = Inl ZeroDivisionError) \<and>
   (0 < nenv \<and> \<not> (0 < nbatch \<and> nenv dvd nbatch) \<longrightarrow>
      lstm nlstm layer_norm (nbatch # rest) nenv fw = Inl ShapeError \<and>
      cnn_lstm nlstm layer_norm conv_kwargs (nbatch # rest) nenv fw = Inl ShapeError) \<and>
   (0 < nenv \<and> 0 < nbatch \<and> nenv dvd nbatch \<longrightarrow>
      (\<exists>c d. lstm nlstm layer_norm (nbatch # rest) nenv fw = Inr (seq_to_batch_h5 c, d) \<and>
         cell_xs c = BatchToSeq (Flatten (Input (nbatch # rest))) nenv (nbatch div nenv) \<and>
         cell_ms c = BatchToSeq (Placeholder tf_float32 [nbatch]) nenv (nbatch div nenv))) \<and>
   (0 < nenv \<and> 0 < nbatch \<and> nenv dvd nbatch \<and>
    shape_of fw (nature_cnn (Input (nbatch # rest)) conv_kwargs) = Inr (nbatch # s) \<longrightarrow>
      (\<exists>c d. cnn_lstm nlstm layer_norm conv_kwargs (nbatch # rest) nenv fw =
                Inr (seq_to_batch_h5 c, d) \<and>
         cell_xs c = BatchToSeq (nature_cnn (Input (nbatch # rest)) conv_kwargs) nenv
                       (nbatch div nenv) \<and>
         cell_ms c = BatchToSeq (Placeholder tf_float32 [nbatch]) nenv (nbatch div nenv))) \<and>
   (lstm nlstm layer_norm (nbatch # rest) nenv fw = Inr (h, d) \<longrightarrow>
      nenv * (nbatch div nenv) = nbatch \<and>
      (\<exists>c. h = seq_to_batch_h5 c \<and>
         cell_xs c = BatchToSeq (Flatten (Input (nbatch # rest))) nenv (nbatch div nenv) \<and>
         cell_ms c = BatchToSeq (Placeholder tf_float32 [nbatch]) nenv (nbatch div nenv))) \<and>
   (cnn_lstm nlstm layer_norm conv_kwargs (nbatch # rest) nenv fw = Inr (h', d') \<longrightarrow>
      nenv * (nbatch div nenv) = nbatch \<and>
      (\<exists>c. h' = seq_to_batch_h5 c \<and>
         cell_xs c = BatchToSeq (nature_cnn (Input (nbatch # rest)) conv_kwargs) nenv
                       (nbatch div nenv) \<and>
         cell_ms c = BatchToSeq (Placeholder tf_float32 [nbatch]) nenv (nbatch div nenv)))"
proof (intro conjI impI)
  assume "nenv = 0"
  then show "lstm nlstm layer_norm (nbatch # rest) nenv fw = Inl ZeroDivisionError"
    by (simp add: lstm_zero)
next
  assume "nenv = 0"
  then show "cnn_lstm nlstm layer_norm conv_kwargs (nbatch # rest) nenv fw = Inl ZeroDivisionError"
    by (simp add: cnn_lstm_zero)
next
  assume "0 < nenv \<and> \<not> (0 < nbatch \<and> nenv dvd nbatch)"
  then show "lstm nlstm layer_norm (nbatch # rest) nenv fw = Inl ShapeError"
    by (simp add: lstm_not_multiple)
next
  assume "0 < nenv \<and> \<not> (0 < nbatch \<and> nenv dvd nbatch)"
  then show "cnn_lstm nlstm layer_norm conv_kwargs (nbatch # rest) nenv fw = Inl ShapeError"
    by (simp add: cnn_lstm_not_multiple)
next
  assume a: "0 < nenv \<and> 0 < nbatch \<and> nenv dvd nbatch"
  then have "0 < nenv" "0 < nbatch" "nenv dvd nbatch" by simp_all
  from lstm_multiple [OF this]
  show "\<exists>c d. lstm nlstm layer_norm (nbatch # rest) nenv fw = Inr (seq_to_batch_h5 c, d) \<and>
         cell_xs c = BatchToSeq (Flatten (Input (nbatch # rest))) nenv (nbatch div nenv) \<and>
         cell_ms c = BatchToSeq (Placeholder tf_float32 [nbatch]) nenv (nbatch div nenv)"
    by (simp add: Let_def)
next
  assume a: "0 < nenv \<and> 0 < nbatch \<and> nenv dvd nbatch \<and>
    shape_of fw (nature_cnn (Input (nbatch # rest)) conv_kwargs) = Inr (nbatch # s)"
  then have "0 < nenv" "0 < nbatch" "nenv dvd nbatch"
    "shape_of fw (nature_cnn (Input (nbatch # rest)) conv_kwargs) = Inr (nbatch # s)"
    by simp_all
  from cnn_lstm_accepted [OF this]
  show "\<exists>c d. cnn_lstm nlstm layer_norm conv_kwargs (nbatch # rest) nenv fw =
                Inr (seq_to_batch_h5 c, d) \<and>
         cell_xs c = BatchToSeq (nature_cnn (Input (nbatch # rest)) conv_kwargs) nenv
                       (nbatch div nenv) \<and>
         cell_ms c = BatchToSeq (Placeholder tf_float32 [nbatch]) nenv (nbatch div nenv)"
    by (simp add: Let_def)
next
  assume r: "lstm nlstm layer_norm (nbatch # rest) nenv fw = Inr (h, d)"
  from lstm_returns [OF r] show "nenv * (nbatch div nenv) = nbatch" by simp
next
  assume r: "lstm nlstm layer_norm (nbatch # rest) nenv fw = Inr (h, d)"
  from lstm_returns [OF r] have "0 < nenv" "0 < nbatch" "nenv dvd nbatch" by simp_all
  from lstm_multiple [OF this, of nlstm layer_norm rest fw] r
  show "\<exists>c. h = seq_to_batch_h5 c \<and>
         cell_xs c = BatchToSeq (Flatten (Input (nbatch # rest))) nenv (nbatch div nenv) \<and>
         cell_ms c = BatchToSeq (Placeholder tf_float32 [nbatch]) nenv (nbatch div nenv)"
    by (auto simp: Let_def)
next
  assume r: "cnn_lstm nlstm layer_norm conv_kwargs (nbatch # rest) nenv fw = Inr (h', d')"
  from cnn_lstm_returns [OF r] show "nenv * (nbatch div nenv) = nbatch" by simp
next
  assume r: "cnn_lstm nlstm layer_norm conv_kwargs (nbatch # rest) nenv fw = Inr (h', d')"
  from cnn_lstm_returns [OF r] have c: "0 < nenv" "0 < nbatch" "nenv dvd nbatch" by simp_all
  from c(1) r obtain xs ms where
    xs: "batch_to_seq fw (nature_cnn (Input (nbatch # rest)) conv_kwargs) nenv (nbatch div nenv) = Inr xs"
    and ms: "batch_to_seq fw (Placeholder tf_float32 [nbatch]) nenv (nbatch div nenv) = Inr ms"
    by (auto simp: cnn_lstm_def py_floordiv_def Let_def split: sum.splits)
  from batch_to_seq_result [OF xs] batch_to_seq_result [OF ms] xs ms c(1) r
  show "\<exists>c. h' = seq_to_batch_h5 c \<and>
         cell_xs c = BatchToSeq (nature_cnn (Input (nbatch # rest)) conv_kwargs) nenv
                       (nbatch div nenv) \<and>
         cell_ms c = BatchToSeq (Placeholder tf_float32 [nbatch]) nenv (nbatch div nenv)"
    by (auto simp: cnn_lstm_def py_floordiv_def Let_def)
qed

theorem step_count_is_floor_division_witness:
  "lstm 128 False [6, 10] 0 unpadded_conv = Inl ZeroDivisionError \<and>
   cnn_lstm 128 False [] [6, 84, 84, 4] 0 unpadded_conv = Inl ZeroDivisionError \<and>
   lstm 128 False [5, 10] 2 unpadded_conv = Inl ShapeError \<and>
   cnn_lstm 128 False [] [5, 84, 84, 4] 2 unpadded_conv = Inl ShapeError \<and>
   (\<exists>c d. lstm 128 False [6, 10] 2 unpadded_conv = Inr (seq_to_batch_h5 c, d) \<and>
      cell_xs c = BatchToSeq (Flatten (Input [6, 10])) 2 3 \<and>
      cell_ms c = BatchToSeq (Placeholder tf_float32 [6]) 2 3) \<and>
   (\<exists>c d. cnn_lstm 128 False [] [6, 84, 84, 4] 2 unpadded_conv = Inr (seq_to_batch_h5 c, d) \<and>
      cell_xs c = BatchToSeq (nature_cnn (Input [6, 84, 84, 4]) []) 2 3 \<and>
      cell_ms c = BatchToSeq (Placeholder tf_float32 [6]) 2 3) \<and>
   (2 :: nat) * (6 div 2) = 6"
proof -
  have a: "(6 :: nat) div 2 = 3" by simp
  have sh: "shape_of unpadded_conv (nature_cnn (Input [6, 84, 84, 4]) []) = Inr [6, 512]"
    by (simp add: unpadded_nature_cnn)
  note z = step_count_is_floor_division [of 0 128 False 6 "[10]" unpadded_conv "[]"]
  note z' = step_count_is_floor_division [of 0 128 False 6 "[84, 84, 4]" unpadded_conv "[]"]
  note n = step_count_is_floor_division [of 2 128 False 5 "[10]" unpadded_conv "[]"]
  note n' = step_count_is_floor_division [of 2 128 False 5 "[84, 84, 4]" unpadded_conv "[]"]
  note m = step_count_is_floor_division [of 2 128 False 6 "[10]" unpadded_conv "[]"]
  note m' = step_count_is_floor_division [of 2 128 False 6 "[84, 84, 4]" unpadded_conv "[]" "[512]"]
  from z have 1: "lstm 128 False [6, 10] 0 unpadded_conv = Inl ZeroDivisionError" by simp
  from z' have 2: "cnn_lstm 128 False [] [6, 84, 84, 4] 0 unpadded_conv = Inl ZeroDivisionError"
    by simp
  from n have 3: "lstm 128 False [5, 10] 2 unpadded_conv = Inl ShapeError" by simp
  from n' have 4: "cnn_lstm 128 False [] [5, 84, 84, 4] 2 unpadded_conv = Inl ShapeError" by simp
  from m have 5: "\<exists>c d. lstm 128 False [6, 10] 2 unpadded_conv = Inr (seq_to_batch_h5 c, d) \<and>
      cell_xs c = BatchToSeq (Flatten (Input [6, 10])) 2 3 \<and>
      cell_ms c = BatchToSeq (Placeholder tf_float32 [6]) 2 3"
    by (simp add: a)
  from m' sh have 6: "\<exists>c d. cnn_lstm 128 False [] [6, 84, 84, 4] 2 unpadded_conv =
        Inr (seq_to_batch_h5 c, d) \<and>
      cell_xs c = BatchToSeq (nature_cnn (Input [6, 84, 84, 4]) []) 2 3 \<and>
      cell_ms c = BatchToSeq (Placeholder tf_float32 [6]) 2 3"
    by (simp add: a)
  from 1 2 3 4 5 6 show ?thesis by simp
qed

text \<open>
  C10 as stated fails: a split that covers only \<open>nsteps * nenv\<close> elements of a larger
  batch is never built; with a batch of 5 and 2 environments, or 7 and 3, the network
  function raises.
\<close>

theorem split_drops_nothing_counterexample:
  "cnn_lstm 128 False [] [5, 84, 84, 4] 2 unpadded_conv = Inl ShapeError \<and>
   lstm 64 True [7, 3] 3 unpadded_conv = Inl ShapeError \<and>
   (3 :: nat) * (7 div 3) \<noteq> 7"
proof -
  have "cnn_lstm 128 False [] [5, 84, 84, 4] 2 unpadded_conv = Inl ShapeError"
    by (rule cnn_lstm_not_multiple) simp_all
  moreover have "lstm 64 True [7, 3] 3 unpadded_conv = Inl ShapeError"
    by (rule lstm_not_multiple) simp_all
  ultimately show ?thesis by simp
qed

end
